theory Spec2Isabelle
  imports Complex_Main
begin

unbundle bit_operations_syntax

section \<open>Runtime values shared by the whole program\<close>

text \<open>
  Exceptions are values: the class name and the message that \<open>str(ex)\<close> prints.
  Only exceptions derived from \<open>Exception\<close> are modelled (no KeyboardInterrupt).
\<close>

datatype exn = Exn (exn_class: string) (exn_msg: string)

definition IndexError :: exn where
  "IndexError = Exn ''IndexError'' ''list index out of range''"

definition ValueError :: exn where
  "ValueError = Exn ''ValueError'' ''invalid literal for int()''"

definition AttributeError :: "string \<Rightarrow> exn" where
  "AttributeError attr =
     Exn ''AttributeError''
       (CHR 0x27 # ''NoneType'' @ CHR 0x27 # '' object has no attribute '' @ CHR 0x27 # attr @ [CHR 0x27])"

definition ConnectionError :: exn where
  "ConnectionError = Exn ''ConnectionError'' ''''"

definition is_ConnectionError :: "exn \<Rightarrow> bool" where
  \<comment> \<open>what \<open>except ConnectionError\<close> catches: the class and its built-in subclasses\<close>
  "is_ConnectionError e =
     (exn_class e \<in> set [''ConnectionError'', ''BrokenPipeError'', ''ConnectionAbortedError'',
                          ''ConnectionRefusedError'', ''ConnectionResetError''])"

definition PlainException :: exn where
  \<comment> \<open>\<open>raise Exception\<close>\<close>
  "PlainException = Exn ''Exception'' ''''"

text \<open>
  The module constant \<open>LED_BRIGHTNESS\<close> (a float read from the environment at import
  time) and the two primitives of the Python runtime that the program relies on:
  the rounding of a float product to the nearest representable float, and the built-in
  \<open>int(s, base)\<close> on strings (\<open>None\<close> stands for ValueError). Floats are read as the
  real numbers they denote; infinities and NaN are not modelled.
\<close>

record runtime =
  LED_BRIGHTNESS :: real
  float_round :: "real \<Rightarrow> real"
  int_of_str :: "string \<Rightarrow> nat \<Rightarrow> int option"

definition float_mul :: "runtime \<Rightarrow> int \<Rightarrow> real \<Rightarrow> real" where
  \<comment> \<open>\<open>r * brightness\<close> with \<open>r\<close> an int and \<open>brightness\<close> a float\<close>
  "float_mul rt r brightness = float_round rt (of_int r * brightness)"

definition py_int_of_float :: "real \<Rightarrow> int" where
  \<comment> \<open>\<open>int(x)\<close> on a float truncates towards zero\<close>
  "py_int_of_float x = (if x < 0 then \<lceil>x\<rceil> else \<lfloor>x\<rfloor>)"

definition py_index :: "'a list \<Rightarrow> int \<Rightarrow> exn + 'a" where
  \<comment> \<open>\<open>xs[i]\<close>: negative indices count from the end, out of range raises IndexError\<close>
  "py_index xs i =
     (if 0 \<le> i \<and> i < int (length xs) then Inr (xs ! nat i)
      else if i < 0 \<and> - int (length xs) \<le> i then Inr (xs ! nat (int (length xs) + i))
      else Inl IndexError)"

section \<open>LED colours\<close>

definition GREEN :: int where "GREEN = 0x00FF00"
definition RED :: int where "RED = 0xFF0000"
definition BLUE :: int where "BLUE = 0x0000FF"
definition PURPLE :: int where "PURPLE = 0xFF00FF"
definition YELLOW :: int where "YELLOW = 0xFF2200"
definition WIFI_BLUE :: int where "WIFI_BLUE = 0x00F9E9"

section \<open>Controllers, driver boards and the board manager\<close>

text \<open>
  An \<open>I2CController\<close> object is compared by identity in \<open>get_board\<close> (the class defines
  no \<open>__eq__\<close>). A controller is represented by its pin pair; a bus claims its pins, so
  two live controllers never share a pair and identity is equality of the records.
\<close>

record I2CController =
  scl :: string
  sda :: string

record LEDDriverBoard =
  controller :: I2CController
  addr :: int

text \<open>
  What the program does to the outside world, in the order it does it. The chip driver,
  the HTTP client and the radio are external: their calls are recorded, not interpreted.
\<close>

datatype event =
    SwitchToOutput LEDDriverBoard int
  | SetConstantCurrent LEDDriverBoard int int
  | Print string
  | Sleep nat
  | HttpGet string
  | RespClose string
  | WifiConnect

record BoardManager =
  controllers :: "I2CController list"
  boards :: "LEDDriverBoard list"

definition BoardManager_init :: "I2CController list \<Rightarrow> BoardManager" where
  "BoardManager_init cs = \<lparr>controllers = cs, boards = []\<rparr>"

definition add_board :: "BoardManager \<Rightarrow> I2CController \<Rightarrow> int \<Rightarrow> BoardManager" where
  "add_board bm c a = bm\<lparr>boards := boards bm @ [\<lparr>controller = c, addr = a\<rparr>]\<rparr>"

fun get_board_loop :: "I2CController list \<Rightarrow> LEDDriverBoard list \<Rightarrow> int \<Rightarrow> int
    \<Rightarrow> exn + LEDDriverBoard option" where
  "get_board_loop cs [] controller_index a = Inr None"
| "get_board_loop cs (b # bs) controller_index a =
     (case py_index cs controller_index of
        Inl e \<Rightarrow> Inl e
      | Inr c \<Rightarrow>
          if controller b = c \<and> addr b = a then Inr (Some b)
          else get_board_loop cs bs controller_index a)"

definition get_board :: "BoardManager \<Rightarrow> int \<Rightarrow> int \<Rightarrow> exn + LEDDriverBoard option" where
  \<comment> \<open>\<open>Inr None\<close> is the Python \<open>return None\<close> after the loop\<close>
  "get_board bm controller_index a =
     get_board_loop (controllers bm) (boards bm) controller_index a"

section \<open>RGB LED\<close>

record RGBLED =
  red_pin_num :: int
  green_pin_num :: int
  blue_pin_num :: int
  host :: LEDDriverBoard

definition RGBLED_init :: "LEDDriverBoard option \<Rightarrow> int \<Rightarrow> int \<Rightarrow> int
    \<Rightarrow> (exn + RGBLED) \<times> event list" where
  \<comment> \<open>with \<open>host = None\<close> the first \<open>host.get_pin\<close> raises AttributeError\<close>
  "RGBLED_init h red_pin green_pin blue_pin =
     (case h of
        None \<Rightarrow> (Inl (AttributeError ''get_pin''), [])
      | Some b \<Rightarrow>
          (Inr \<lparr>red_pin_num = red_pin, green_pin_num = green_pin,
                blue_pin_num = blue_pin, host = b\<rparr>,
           [SwitchToOutput b red_pin, SwitchToOutput b green_pin, SwitchToOutput b blue_pin]))"

definition set_color :: "runtime \<Rightarrow> RGBLED \<Rightarrow> int \<Rightarrow> real \<Rightarrow> event list" where
  "set_color rt led color brightness =
     (let r = drop_bit 16 color;
          g = drop_bit 8 (color AND 0x00FF00);
          b = color AND 0x0000FF
      in [SetConstantCurrent (host led) (red_pin_num led) (py_int_of_float (float_mul rt r brightness)),
          SetConstantCurrent (host led) (green_pin_num led) (py_int_of_float (float_mul rt g brightness)),
          SetConstantCurrent (host led) (blue_pin_num led) (py_int_of_float (float_mul rt b brightness))])"

section \<open>Flight categories and the colour policy\<close>

text \<open>The class \<open>FlightCategory\<close> is a set of string constants; a category is a string.\<close>

definition UNKNOWN :: string where "UNKNOWN = ''UNKNOWN''"
definition VFR :: string where "VFR = ''VFR''"
definition MVFR :: string where "MVFR = ''MVFR''"
definition IFR :: string where "IFR = ''IFR''"
definition LIFR :: string where "LIFR = ''LIFR''"

definition str_map :: "string \<rightharpoonup> string" where
  "str_map = map_of
     [(''UNKNOWN'', UNKNOWN), (''VFR'', VFR), (''MVFR'', MVFR), (''IFR'', IFR), (''LIFR'', LIFR)]"

definition from_string :: "string \<Rightarrow> string" where
  "from_string name = (case str_map name of Some c \<Rightarrow> c | None \<Rightarrow> UNKNOWN)"

definition color_map :: "string \<rightharpoonup> int" where
  "color_map = map_of
     [(''VFR'', GREEN), (''MVFR'', BLUE), (''IFR'', RED), (''LIFR'', PURPLE), (''UNKNOWN'', YELLOW)]"

definition get_color_from_flight_category :: "string \<Rightarrow> int" where
  "get_color_from_flight_category category =
     (case color_map category of Some c \<Rightarrow> c | None \<Rightarrow> YELLOW)"

section \<open>The weather service seen through the requests session\<close>

text \<open>
  One request has three outcomes: \<open>get\<close> raises (no response object exists), \<open>get\<close>
  returns a response whose \<open>text\<close> raises, or the body is read. A session answers its
  \<open>k\<close>-th request for a URL with \<open>responses k url\<close>, so the service may change its
  mind between two requests.
\<close>

datatype http_result = GetRaises exn | TextRaises exn | Body string

record Session =
  responses :: "nat \<Rightarrow> string \<Rightarrow> http_result"
  issued :: nat

definition session_get :: "Session \<Rightarrow> string \<Rightarrow> http_result \<times> Session" where
  "session_get s url = (responses s (issued s) url, s\<lparr>issued := Suc (issued s)\<rparr>)"

definition metar_url :: "string \<Rightarrow> string" where
  "metar_url code = ''https://aviationweather.gov/api/data/metar?ids='' @ code @ ''&format=xml''"

subsection \<open>The regular expression\<close>

definition open_tag :: string where "open_tag = ''<flight_category>''"
definition close_tag :: string where "close_tag = ''</flight_category>''"

fun strip_prefix :: "string \<Rightarrow> string \<Rightarrow> string option" where
  "strip_prefix [] s = Some s"
| "strip_prefix (p # ps) [] = None"
| "strip_prefix (p # ps) (c # cs) = (if p = c then strip_prefix ps cs else None)"

text \<open>
  \<open>(.*)</flight_category>\<close> matched at the head of a string: the greedy \<open>.*\<close> first
  takes one more character (any but a newline) and backtracks to the closing tag at the
  current position when the rest does not match. The result is group 1.
\<close>

fun match_group :: "string \<Rightarrow> string option" where
  "match_group [] = None"
| "match_group (c # cs) =
     (case (if c = CHR 0x0A then None else match_group cs) of
        Some g \<Rightarrow> Some (c # g)
      | None \<Rightarrow> (case strip_prefix close_tag (c # cs) of Some _ \<Rightarrow> Some [] | None \<Rightarrow> None))"

text \<open>\<open>re.search\<close> tries the start positions from left to right; \<open>None\<close> is no match.\<close>

fun re_search :: "string \<Rightarrow> string option" where
  "re_search [] = None"
| "re_search (c # cs) =
     (case (case strip_prefix open_tag (c # cs) of None \<Rightarrow> None | Some rest \<Rightarrow> match_group rest) of
        Some g \<Rightarrow> Some g
      | None \<Rightarrow> re_search cs)"

section \<open>Airports\<close>

record Airport =
  airport_code :: string
  led :: RGBLED
  flight_category :: string
  alternate :: string

definition Airport_init :: "runtime \<Rightarrow> string \<Rightarrow> int \<Rightarrow> int \<Rightarrow> int \<Rightarrow> string
    \<Rightarrow> LEDDriverBoard option \<Rightarrow> (exn + Airport) \<times> event list" where
  "Airport_init rt code red_pin green_pin blue_pin alt h =
     (case RGBLED_init h red_pin green_pin blue_pin of
        (Inl e, ev) \<Rightarrow> (Inl e, ev)
      | (Inr l, ev) \<Rightarrow>
          (Inr \<lparr>airport_code = code, led = l, flight_category = UNKNOWN, alternate = alt\<rparr>,
           ev @ set_color rt l YELLOW (LED_BRIGHTNESS rt)))"

text \<open>
  The three lines that both \<open>try\<close> blocks of \<open>update_flight_category\<close> share: the
  request, the extraction of group 1 (\<open>.group\<close> on \<open>None\<close> raises AttributeError) and
  the parse. The flag tells whether \<open>resp\<close> was assigned a response object.
\<close>

definition request_category :: "Session \<Rightarrow> string \<Rightarrow> (exn + string) \<times> bool \<times> Session" where
  "request_category s code =
     (case session_get s (metar_url code) of
        (GetRaises e, s') \<Rightarrow> (Inl e, False, s')
      | (TextRaises e, s') \<Rightarrow> (Inl e, True, s')
      | (Body text, s') \<Rightarrow>
          (case re_search text of
             None \<Rightarrow> (Inl (AttributeError ''group''), True, s')
           | Some g \<Rightarrow> (Inr (from_string g), True, s')))"

definition trying_alternate_line :: "Airport \<Rightarrow> string" where
  "trying_alternate_line a =
     ''Trying alternate for '' @ airport_code a @ '' ('' @ alternate a @ '')''"

definition error_line :: "Airport \<Rightarrow> exn \<Rightarrow> string" where
  "error_line a ex = ''[Error ('' @ airport_code a @ '')] '' @ exn_msg ex"

text \<open>
  Lines 224 to 244 of \<open>update_flight_category\<close>: the value of the local
  \<open>flight_category\<close> when the \<open>try\<close> statement is left, the session after the
  requests, and what happened on the way. When the alternate \<open>get\<close> raises, \<open>resp\<close>
  still holds the primary response, which \<open>finally\<close> closes a second time.
\<close>

definition resolve_flight_category :: "Session \<Rightarrow> Airport \<Rightarrow> string \<times> Session \<times> event list" where
  "resolve_flight_category s a =
     (case request_category s (airport_code a) of (r1, got1, s1) \<Rightarrow>
        (let ev1 = [HttpGet (metar_url (airport_code a))];
             close1 = (if got1 then [RespClose (metar_url (airport_code a))] else [])
         in case (case r1 of
                    Inl e \<Rightarrow> Inl e
                  | Inr c \<Rightarrow> if c = UNKNOWN then Inl PlainException else Inr c) of
              Inr c \<Rightarrow> (c, s1, ev1 @ close1)
            | Inl ex \<Rightarrow>
                (case request_category s1 (alternate a) of (r2, got2, s2) \<Rightarrow>
                   (let ev2 = ev1 @ close1
                              @ [Print (trying_alternate_line a), HttpGet (metar_url (alternate a))];
                        close2 = (if got2 then [RespClose (metar_url (alternate a))] else close1)
                    in case r2 of
                         Inr c \<Rightarrow> (c, s2, ev2 @ close2)
                       | Inl ex2 \<Rightarrow> (UNKNOWN, s2, ev2 @ [Print (error_line a ex2)] @ close2)))))"

definition update_flight_category :: "runtime \<Rightarrow> Session \<Rightarrow> Airport
    \<Rightarrow> Airport \<times> Session \<times> event list" where
  "update_flight_category rt s a =
     (case resolve_flight_category s a of (c, s', ev) \<Rightarrow>
        if c \<noteq> flight_category a
        then (a\<lparr>flight_category := c\<rparr>, s',
              ev @ set_color rt (led a) (get_color_from_flight_category c) (LED_BRIGHTNESS rt))
        else (a, s', ev))"

subsection \<open>Configuration lines\<close>

definition isspace :: "char \<Rightarrow> bool" where
  \<comment> \<open>the whitespace characters of \<open>str.split()\<close> below code point 128\<close>
  "isspace c = (c \<in> set [CHR 0x09, CHR 0x0A, CHR 0x0B, CHR 0x0C, CHR 0x0D,
                           CHR 0x1C, CHR 0x1D, CHR 0x1E, CHR 0x1F, CHR 0x20])"

fun split_from :: "string \<Rightarrow> string \<Rightarrow> string list" where
  "split_from word [] = (if word = [] then [] else [word])"
| "split_from word (c # cs) =
     (if isspace c then (if word = [] then split_from [] cs else word # split_from [] cs)
      else split_from (word @ [c]) cs)"

definition py_split :: "string \<Rightarrow> string list" where
  \<comment> \<open>\<open>line.split()\<close>: the maximal runs of non-whitespace characters\<close>
  "py_split line = split_from [] line"

definition py_int :: "runtime \<Rightarrow> string \<Rightarrow> nat \<Rightarrow> exn + int" where
  "py_int rt s base = (case int_of_str rt s base of None \<Rightarrow> Inl ValueError | Some n \<Rightarrow> Inr n)"

definition and_then :: "exn + 'a \<Rightarrow> ('a \<Rightarrow> (exn + 'b) \<times> event list) \<Rightarrow> (exn + 'b) \<times> event list" where
  \<comment> \<open>an exception in an argument ends the statement before anything is done\<close>
  "and_then x f = (case x of Inl e \<Rightarrow> (Inl e, []) | Inr v \<Rightarrow> f v)"

definition from_config_line :: "runtime \<Rightarrow> string \<Rightarrow> BoardManager \<Rightarrow> (exn + Airport) \<times> event list" where
  "from_config_line rt line board_manager =
     (let split_line = py_split line in
      and_then (py_index split_line 1) (\<lambda>f1.
      and_then (py_int rt f1 10) (\<lambda>controller_index.
      and_then (py_index split_line 2) (\<lambda>f2.
      and_then (py_int rt f2 16) (\<lambda>address.
      and_then (get_board board_manager controller_index address) (\<lambda>h.
      and_then (py_index split_line 0) (\<lambda>code.
      and_then (py_index split_line 3) (\<lambda>f3.
      and_then (py_int rt f3 10) (\<lambda>red_pin.
      and_then (py_index split_line 4) (\<lambda>f4.
      and_then (py_int rt f4 10) (\<lambda>green_pin.
      and_then (py_index split_line 5) (\<lambda>f5.
      and_then (py_int rt f5 10) (\<lambda>blue_pin.
      and_then (py_index split_line 6) (\<lambda>alt.
        Airport_init rt code red_pin green_pin blue_pin alt h))))))))))))))"

section \<open>The airport manager\<close>

fun load_airports :: "runtime \<Rightarrow> string list \<Rightarrow> BoardManager \<Rightarrow> Airport list
    \<Rightarrow> (exn + Airport list) \<times> event list" where
  \<comment> \<open>the lines are those of \<open>readlines()\<close>; the last argument is \<open>airport_list\<close> so far\<close>
  "load_airports rt [] board_manager airport_list = (Inr airport_list, [])"
| "load_airports rt (line # lines) board_manager airport_list =
     (case from_config_line rt line board_manager of
        (Inl e, ev) \<Rightarrow> (Inl e, ev)
      | (Inr a, ev) \<Rightarrow>
          (case load_airports rt lines board_manager (airport_list @ [a]) of
             (r, ev') \<Rightarrow> (r, ev @ ev')))"

fun update_airport_flight_categories :: "runtime \<Rightarrow> Session \<Rightarrow> Airport list
    \<Rightarrow> Airport list \<times> Session \<times> event list" where
  "update_airport_flight_categories rt s [] = ([], s, [])"
| "update_airport_flight_categories rt s (a # as) =
     (case update_flight_category rt s a of (a', s1, ev) \<Rightarrow>
        (case update_airport_flight_categories rt s1 as of (as', s2, ev') \<Rightarrow>
           (a' # as', s2, ev @ ev')))"

section \<open>The map: colours on every LED and the WiFi connection\<close>

definition show_color :: "runtime \<Rightarrow> Airport list \<Rightarrow> int \<Rightarrow> real \<Rightarrow> event list" where
  "show_color rt airport_list color brightness =
     concat (map (\<lambda>a. set_color rt (led a) color brightness) airport_list)"

definition show_error_state :: "runtime \<Rightarrow> Airport list \<Rightarrow> string \<Rightarrow> event list" where
  "show_error_state rt airport_list err =
     show_color rt airport_list YELLOW (LED_BRIGHTNESS rt) @ [Print (''[Error] '' @ err)]"

fun str_nat :: "nat \<Rightarrow> string" where
  "str_nat n = (if n < 10 then [''0123456789'' ! n]
                else str_nat (n div 10) @ [''0123456789'' ! (n mod 10)])"

declare str_nat.simps [simp del]

text \<open>
  \<open>wifi.radio.connect\<close> on attempt \<open>k\<close> either returns (\<open>None\<close>) or raises. Only
  \<open>ConnectionError\<close> is caught; any other exception leaves \<open>connect_wifi\<close>.
\<close>

fun connect_attempts :: "runtime \<Rightarrow> (nat \<Rightarrow> exn option) \<Rightarrow> Airport list \<Rightarrow> nat list
    \<Rightarrow> (exn + bool) \<times> event list" where
  "connect_attempts rt radio airport_list [] = (Inr False, [])"
| "connect_attempts rt radio airport_list (attempt # rest) =
     (let ev = show_color rt airport_list WIFI_BLUE (LED_BRIGHTNESS rt)
               @ [Print (''Attempting to connect to WIFI (attempt '' @ str_nat attempt @ '')...''),
                  WifiConnect]
      in case radio attempt of
           None \<Rightarrow> (Inr True, ev @ [Print ''Connected to WIFI''])
         | Some e \<Rightarrow>
             if is_ConnectionError e
             then (case connect_attempts rt radio airport_list rest of
                     (r, ev') \<Rightarrow> (r, ev @ [Sleep 1] @ ev'))
             else (Inl e, ev))"

definition connect_wifi :: "runtime \<Rightarrow> (nat \<Rightarrow> exn option) \<Rightarrow> Airport list
    \<Rightarrow> (exn + bool) \<times> event list" where
  \<comment> \<open>\<open>for attempt in range(1, 6)\<close>, the \<open>else\<close> of the loop returning False\<close>
  "connect_wifi rt radio airport_list = connect_attempts rt radio airport_list [1..<6]"

section \<open>The process\<close>

text \<open>
  The polling loop never ends by itself. \<open>poll\<close> runs a given number of its rounds; the
  process as a whole has exited with a status, died of an uncaught exception, or is still
  polling after the rounds it was given.
\<close>

fun poll :: "nat \<Rightarrow> runtime \<Rightarrow> Session \<Rightarrow> Airport list \<Rightarrow> Airport list \<times> Session \<times> event list" where
  "poll 0 rt s airport_list = (airport_list, s, [])"
| "poll (Suc n) rt s airport_list =
     (case update_airport_flight_categories rt s airport_list of (as1, s1, ev) \<Rightarrow>
        (case poll n rt s1 as1 of (as2, s2, ev') \<Rightarrow> (as2, s2, ev @ [Sleep 45] @ ev')))"

datatype outcome = Exited int | Uncaught exn | Polling "Airport list" Session

definition main_boards :: BoardManager where
  "main_boards =
     (let i2c0 = \<lparr>scl = ''GP1'', sda = ''GP0''\<rparr>;
          i2c1 = \<lparr>scl = ''GP27'', sda = ''GP26''\<rparr>
      in foldl (\<lambda>bm (c, a). add_board bm c a) (BoardManager_init [i2c0, i2c1])
           (List.product [i2c0, i2c1] [0x58, 0x59, 0x5A, 0x5B]))"

definition main :: "runtime \<Rightarrow> exn + string list \<Rightarrow> (nat \<Rightarrow> exn option) \<Rightarrow> Session \<Rightarrow> nat
    \<Rightarrow> outcome \<times> event list" where
  \<comment> \<open>\<open>config\<close> is the outcome of opening and reading \<open>./lib/config.txt\<close>;
      the last argument is the number of polling rounds to follow\<close>
  "main rt config radio requests rounds =
     (case config of
        Inl e \<Rightarrow> (Uncaught e, [])
      | Inr lines \<Rightarrow>
          (case load_airports rt lines main_boards [] of
             (Inl e, ev0) \<Rightarrow> (Uncaught e, ev0)
           | (Inr airport_list, ev0) \<Rightarrow>
               (case connect_wifi rt radio airport_list of
                  (Inl e, ev1) \<Rightarrow> (Uncaught e, ev0 @ ev1)
                | (Inr wifi_result, ev1) \<Rightarrow>
                    if wifi_result
                    then (let ev2 = show_color rt airport_list GREEN (LED_BRIGHTNESS rt)
                                    @ [Sleep 1]
                                    @ show_color rt airport_list YELLOW (LED_BRIGHTNESS rt)
                          in case poll rounds rt requests airport_list of
                               (as', s', ev3) \<Rightarrow> (Polling as' s', ev0 @ ev1 @ ev2 @ ev3))
                    else (Exited 1,
                          ev0 @ ev1 @ show_color rt airport_list RED (LED_BRIGHTNESS rt)))))"

section \<open>Reading a trace\<close>

fun is_get :: "event \<Rightarrow> bool" where
  "is_get (HttpGet _) = True"
| "is_get _ = False"

fun is_write :: "event \<Rightarrow> bool" where
  "is_write (SetConstantCurrent _ _ _) = True"
| "is_write _ = False"

fun is_connect :: "event \<Rightarrow> bool" where
  "is_connect WifiConnect = True"
| "is_connect _ = False"

fun is_sleep :: "event \<Rightarrow> bool" where
  "is_sleep (Sleep _) = True"
| "is_sleep _ = False"

fun is_error_print :: "event \<Rightarrow> bool" where
  \<comment> \<open>a printed line that starts with \<open>[Error\<close>\<close>
  "is_error_print (Print line) = (take 6 line = ''[Error'')"
| "is_error_print _ = False"

text \<open>
  The driver boards as the LEDs see them: the level last written to each channel of each
  board, \<open>None\<close> for a channel never written.
\<close>

type_synonym hardware = "LEDDriverBoard \<times> int \<Rightarrow> int option"

fun apply_event :: "hardware \<Rightarrow> event \<Rightarrow> hardware" where
  "apply_event hw (SetConstantCurrent b pin v) = hw((b, pin) \<mapsto> v)"
| "apply_event hw _ = hw"

definition run_events :: "hardware \<Rightarrow> event list \<Rightarrow> hardware" where
  "run_events hw evs = foldl apply_event hw evs"





section \<open>Notions of the specification\<close>

text \<open>
  The primary attempt failed: the request raised, or the body has no
  \<open><flight_category>\<dots></flight_category>\<close> marker, or the marked text parses to Unknown.
\<close>

definition primary_failed :: "Session \<Rightarrow> Airport \<Rightarrow> bool" where
  "primary_failed s a =
     (case responses s (issued s) (metar_url (airport_code a)) of
        GetRaises e \<Rightarrow> True
      | TextRaises e \<Rightarrow> True
      | Body text \<Rightarrow>
          (case re_search text of None \<Rightarrow> True | Some g \<Rightarrow> from_string g = UNKNOWN))"

text \<open>An attempt fails when the radio raises what \<open>except ConnectionError\<close> catches.\<close>

definition connection_fails :: "(nat \<Rightarrow> exn option) \<Rightarrow> nat \<Rightarrow> bool" where
  "connection_fails radio k = (case radio k of None \<Rightarrow> False | Some e \<Rightarrow> is_ConnectionError e)"

text \<open>One connection attempt as the outside sees it, up to the call of the radio.\<close>

definition attempt_events :: "runtime \<Rightarrow> Airport list \<Rightarrow> nat \<Rightarrow> event list" where
  "attempt_events rt airport_list k =
     show_color rt airport_list WIFI_BLUE (LED_BRIGHTNESS rt)
     @ [Print (''Attempting to connect to WIFI (attempt '' @ str_nat k @ '')...''), WifiConnect]"

text \<open>The attempts that failed, each followed by the sleep of one second.\<close>

definition failed_attempts :: "runtime \<Rightarrow> Airport list \<Rightarrow> nat list \<Rightarrow> event list" where
  "failed_attempts rt airport_list ks =
     concat (map (\<lambda>k. attempt_events rt airport_list k @ [Sleep 1]) ks)"

section \<open>Worked examples\<close>

text \<open>
  A runtime for the examples: brightness one half, products taken exactly, and
  \<open>int(s, base)\<close> read on plain digit strings, the form a configuration file uses.
\<close>

fun digit_value :: "char \<Rightarrow> nat option" where
  "digit_value c =
     (let n = of_char c :: nat
      in if 48 \<le> n \<and> n \<le> 57 then Some (n - 48)
         else if 97 \<le> n \<and> n \<le> 102 then Some (n - 87)
         else if 65 \<le> n \<and> n \<le> 70 then Some (n - 55)
         else None)"

fun digits_value :: "nat \<Rightarrow> int \<Rightarrow> string \<Rightarrow> int option" where
  "digits_value base acc [] = Some acc"
| "digits_value base acc (c # cs) =
     (case digit_value c of
        None \<Rightarrow> None
      | Some d \<Rightarrow> if d < base then digits_value base (acc * int base + int d) cs else None)"

definition plain_int :: "string \<Rightarrow> nat \<Rightarrow> int option" where
  "plain_int s base = (if s = [] then None else digits_value base 0 s)"

definition example_runtime :: runtime where
  "example_runtime = \<lparr>LED_BRIGHTNESS = 1 / 2, float_round = (\<lambda>x. x), int_of_str = plain_int\<rparr>"

text \<open>An LED on the first board of the first bus, and the airport that owns it.\<close>

definition example_led :: RGBLED where
  "example_led = \<lparr>red_pin_num = 0, green_pin_num = 1, blue_pin_num = 2,
     host = \<lparr>controller = \<lparr>scl = ''GP1'', sda = ''GP0''\<rparr>, addr = 0x58\<rparr>\<rparr>"

definition example_airport :: Airport where
  "example_airport =
     \<lparr>airport_code = ''KXYZ'', led = example_led, flight_category = UNKNOWN, alternate = ''KABC''\<rparr>"

text \<open>A fresh session that answers from a table of URLs; other URLs are unreachable.\<close>

definition answers :: "(string \<times> http_result) list \<Rightarrow> Session" where
  "answers table =
     \<lparr>responses = (\<lambda>k url. case map_of table url of Some r \<Rightarrow> r
                               | None \<Rightarrow> GetRaises (Exn ''OSError'' ''unreachable'')),
      issued = 0\<rparr>"

text \<open>
  Three lines of a configuration file as \<open>readlines\<close> returns them: the line of the
  example airport, a line that names a board address nobody registered, and a line with
  six fields.
\<close>

definition example_line :: string where
  "example_line = ''KXYZ 0 58 0 1 2 KABC'' @ [CHR 0x0A]"

definition unknown_board_line :: string where
  "unknown_board_line = ''KXYZ 0 60 0 1 2 KABC'' @ [CHR 0x0A]"



section \<open>Auxiliary facts\<close>

lemmas example_defs =
  example_airport_def example_led_def example_runtime_def answers_def metar_url_def
  open_tag_def close_tag_def from_string_def str_map_def
  UNKNOWN_def VFR_def MVFR_def IFR_def LIFR_def




lemma byte_bounds: "0 \<le> (x::int) mod 256 \<and> x mod 256 \<le> 255"
  using pos_mod_bound [of 256 x] by simp



lemma gets_set_color [simp]: "filter is_get (set_color rt l c b) = []"
  by (simp add: set_color_def Let_def)

lemma writes_set_color [simp]: "filter is_write (set_color rt l c b) = set_color rt l c b"
  by (simp add: set_color_def Let_def)

lemma from_string_recognised:
  "(from_string g = UNKNOWN) = (g \<notin> {''VFR'', ''MVFR'', ''IFR'', ''LIFR''})"
  by (simp add: from_string_def str_map_def UNKNOWN_def VFR_def MVFR_def IFR_def LIFR_def)

lemma resolve_gets:
  "filter is_get (snd (snd (resolve_flight_category s a))) =
     (if primary_failed s a
      then [HttpGet (metar_url (airport_code a)), HttpGet (metar_url (alternate a))]
      else [HttpGet (metar_url (airport_code a))])"
  by (simp add: resolve_flight_category_def request_category_def session_get_def
      primary_failed_def Let_def
      split: http_result.split option.split sum.split)

lemma resolve_writes: "filter is_write (snd (snd (resolve_flight_category s a))) = []"
  by (simp add: resolve_flight_category_def request_category_def session_get_def Let_def
      split: http_result.split option.split sum.split)

lemma update_unfold:
  "update_flight_category rt s a =
     (let c = fst (resolve_flight_category s a);
          s' = fst (snd (resolve_flight_category s a));
          ev = snd (snd (resolve_flight_category s a))
      in if c \<noteq> flight_category a
         then (a\<lparr>flight_category := c\<rparr>, s',
               ev @ set_color rt (led a) (get_color_from_flight_category c) (LED_BRIGHTNESS rt))
         else (a, s', ev))"
  by (simp add: update_flight_category_def Let_def split: prod.split)

lemma update_category:
  "flight_category (fst (update_flight_category rt s a)) = fst (resolve_flight_category s a)"
  by (simp add: update_unfold Let_def)


lemma update_writes:
  "filter is_write (snd (snd (update_flight_category rt s a))) =
     (if fst (resolve_flight_category s a) \<noteq> flight_category a
      then set_color rt (led a)
             (get_color_from_flight_category (fst (resolve_flight_category s a)))
             (LED_BRIGHTNESS rt)
      else [])"
  by (simp add: update_unfold Let_def resolve_writes)

lemma connects_show_color [simp]: "filter is_connect (show_color rt as c b) = []"
  by (induction as) (simp_all add: show_color_def set_color_def Let_def)

lemma connects_attempt [simp]: "filter is_connect (attempt_events rt as k) = [WifiConnect]"
  by (simp add: attempt_events_def)

lemma connects_failed_attempts:
  "length (filter is_connect (failed_attempts rt as ks)) = length ks"
  by (induction ks) (simp_all add: failed_attempts_def)

lemma attempts_bounded:
  "length (filter is_connect (snd (connect_attempts rt radio as ks))) \<le> length ks"
proof (induction ks)
  case Nil
  show ?case by simp
next
  case (Cons k ks)
  then show ?case
    by (auto simp add: Let_def split: option.split prod.split)
qed

lemma attempts_fail_then:
  assumes "\<forall>k \<in> set ks. connection_fails radio k"
  shows "connect_attempts rt radio as (ks @ rest) =
           (fst (connect_attempts rt radio as rest),
            failed_attempts rt as ks @ snd (connect_attempts rt radio as rest))"
  using assms
proof (induction ks)
  case Nil
  show ?case by (simp add: failed_attempts_def)
next
  case (Cons k ks)
  then have "connection_fails radio k" and "\<forall>j \<in> set ks. connection_fails radio j"
    by simp_all
  with Cons.IH show ?case
    by (auto simp add: connection_fails_def failed_attempts_def attempt_events_def Let_def
        split: option.splits)
qed

lemma attempt_succeeds:
  "radio k = None \<Longrightarrow>
     connect_attempts rt radio as (k # rest) =
       (Inr True, attempt_events rt as k @ [Print ''Connected to WIFI''])"
  by (simp add: attempt_events_def Let_def)

lemma connect_wifi_exhausted:
  assumes "\<forall>k \<in> {1..5}. connection_fails radio k"
  shows "connect_wifi rt radio as = (Inr False, failed_attempts rt as [1..<6])"
proof -
  have "\<forall>k \<in> set [1..<6]. connection_fails radio k"
    using assms by auto
  from attempts_fail_then [OF this, of rt as "[]"] show ?thesis
    by (simp add: connect_wifi_def)
qed

lemma connect_wifi_succeeds:
  assumes "1 \<le> k" "k \<le> 5" "\<forall>j \<in> {1..<k}. connection_fails radio j" "radio k = None"
  shows "connect_wifi rt radio as =
           (Inr True, failed_attempts rt as [1..<k] @ attempt_events rt as k
                      @ [Print ''Connected to WIFI''])"
proof -
  have "[1..<k + (6 - k)] = [1..<k] @ [k..<k + (6 - k)]"
    using assms(1) by (rule upt_add_eq_append)
  moreover have "k + (6 - k) = 6"
    using assms(2) by simp
  moreover have "[k..<6] = k # [Suc k..<6]"
    using assms(2) by (simp add: upt_conv_Cons)
  ultimately have split: "[1..<6] = [1..<k] @ k # [Suc k..<6]"
    by simp
  have before: "\<forall>j \<in> set [1..<k]. connection_fails radio j"
    using assms(3) by simp
  have "connect_wifi rt radio as = connect_attempts rt radio as ([1..<k] @ k # [Suc k..<6])"
    by (simp only: connect_wifi_def split)
  also have "\<dots> = (fst (connect_attempts rt radio as (k # [Suc k..<6])),
                     failed_attempts rt as [1..<k]
                     @ snd (connect_attempts rt radio as (k # [Suc k..<6])))"
    using before by (rule attempts_fail_then)
  also have "\<dots> = (Inr True, failed_attempts rt as [1..<k] @ attempt_events rt as k
                                @ [Print ''Connected to WIFI''])"
    by (simp only: attempt_succeeds [of radio k, OF assms(4)] fst_conv snd_conv)
  finally show ?thesis .
qed

lemma sleeps_set_color [simp]: "filter is_sleep (set_color rt l c b) = []"
  by (simp add: set_color_def Let_def)

lemma sleeps_resolve [simp]: "filter is_sleep (snd (snd (resolve_flight_category s a))) = []"
  by (simp add: resolve_flight_category_def request_category_def session_get_def Let_def
      split: http_result.split option.split sum.split)

lemma sleeps_update [simp]: "filter is_sleep (snd (snd (update_flight_category rt s a))) = []"
  by (simp add: update_unfold Let_def)

lemma sleeps_update_all [simp]:
  "filter is_sleep (snd (snd (update_airport_flight_categories rt s as))) = []"
proof (induction as arbitrary: s)
  case Nil
  show ?case by simp
next
  case (Cons a as)
  then show ?case
    by (simp add: case_prod_unfold)
qed

lemma sleeps_poll:
  "filter is_sleep (snd (snd (poll n rt s as))) = replicate n (Sleep 45)"
proof (induction n arbitrary: s as)
  case 0
  show ?case by simp
next
  case (Suc n)
  then show ?case
    by (simp add: case_prod_unfold)
qed

lemma main_unfold:
  assumes "load_airports rt lines main_boards [] = (Inr as, ev0)"
  shows "main rt (Inr lines) radio s n =
     (case fst (connect_wifi rt radio as) of
        Inl e \<Rightarrow> (Uncaught e, ev0 @ snd (connect_wifi rt radio as))
      | Inr wifi_result \<Rightarrow>
          if wifi_result
          then (Polling (fst (poll n rt s as)) (fst (snd (poll n rt s as))),
                ev0 @ snd (connect_wifi rt radio as)
                @ show_color rt as GREEN (LED_BRIGHTNESS rt) @ [Sleep 1]
                @ show_color rt as YELLOW (LED_BRIGHTNESS rt)
                @ snd (snd (poll n rt s as)))
          else (Exited 1, ev0 @ snd (connect_wifi rt radio as)
                          @ show_color rt as RED (LED_BRIGHTNESS rt)))"
  using assms by (simp add: main_def Let_def split: prod.split sum.split)

lemma example_line_loads:
  "load_airports example_runtime [example_line] main_boards []
     = (Inr [example_airport], snd (load_airports example_runtime [example_line] main_boards []))"
  by (simp add: example_line_def from_config_line_def py_split_def isspace_def and_then_def
      py_index_def py_int_def plain_int_def get_board_def main_boards_def add_board_def
      BoardManager_init_def Airport_init_def RGBLED_init_def Let_def example_defs)

lemma get_board_loop_found:
  "get_board_loop cs bs ci ad = Inr (Some b) \<Longrightarrow>
     b \<in> set bs \<and> py_index cs ci = Inr (controller b) \<and> addr b = ad"
  by (induction bs) (auto split: sum.splits if_splits)

lemma get_board_loop_none:
  "get_board_loop cs bs ci ad = Inr None \<Longrightarrow>
     \<forall>b \<in> set bs. \<not> (py_index cs ci = Inr (controller b) \<and> addr b = ad)"
  by (induction bs) (auto split: sum.splits if_splits)

lemma get_board_loop_raises:
  "get_board_loop cs bs ci ad = Inl e \<Longrightarrow> e = IndexError \<and> py_index cs ci = Inl IndexError"
  by (induction bs) (auto simp add: py_index_def split: sum.splits if_splits)





lemma no_board_raises:
  assumes "py_index (py_split line) 1 = Inr f1" "py_int rt f1 10 = Inr ci"
    and "py_index (py_split line) 2 = Inr f2" "py_int rt f2 16 = Inr ad"
    and "\<forall>b. get_board bm ci ad \<noteq> Inr (Some b)"
  shows "\<exists>e. from_config_line rt line bm = (Inl e, [])"
proof (cases "get_board bm ci ad")
  case (Inl e)
  with assms(1-4) show ?thesis
    by (simp add: from_config_line_def Let_def and_then_def)
next
  case (Inr h)
  with assms(5) have "h = None"
    by (cases h) simp_all
  with Inr assms(1-4) show ?thesis
    by (simp add: from_config_line_def Let_def and_then_def Airport_init_def RGBLED_init_def
        split: sum.split)
qed

lemma load_airports_raises:
  assumes "line \<in> set lines" "from_config_line rt line bm = (Inl e, ev)"
  shows "\<exists>e' ev'. load_airports rt lines bm acc = (Inl e', ev')"
  using assms(1)
proof (induction lines arbitrary: acc)
  case Nil
  then show ?case by simp
next
  case (Cons l ls)
  show ?case
  proof (cases "from_config_line rt l bm")
    case (Pair r ev0)
    show ?thesis
    proof (cases r)
      case (Inl e0)
      with Pair show ?thesis by simp
    next
      case (Inr a)
      with Pair assms(2) have "l \<noteq> line" by auto
      with Cons.prems have "line \<in> set ls" by simp
      from Cons.IH [OF this, of "acc @ [a]"] Pair Inr show ?thesis
        by auto
    qed
  qed
qed

lemma main_load_raises:
  assumes "load_airports rt lines main_boards [] = (Inl e, ev)"
  shows "main rt (Inr lines) radio s n = (Uncaught e, ev)"
  using assms by (simp add: main_def)

lemma connects_set_color [simp]: "filter is_connect (set_color rt l c b) = []"
  by (simp add: set_color_def Let_def)

lemma connects_from_config_line:
  "filter is_connect (snd (from_config_line rt line bm)) = []"
  by (simp add: from_config_line_def Let_def and_then_def Airport_init_def RGBLED_init_def
      split: sum.split option.split)

lemma connects_load_airports:
  "filter is_connect (snd (load_airports rt lines bm acc)) = []"
proof (induction lines arbitrary: acc)
  case Nil
  show ?case by simp
next
  case (Cons l ls)
  with connects_from_config_line [of rt l bm] show ?case
    by (auto simp add: case_prod_unfold split: sum.split prod.split)
qed

lemmas config_defs =
  from_config_line_def py_split_def isspace_def and_then_def
  py_index_def py_int_def plain_int_def get_board_def main_boards_def add_board_def
  BoardManager_init_def Airport_init_def RGBLED_init_def Let_def






lemma run_events_Nil [simp]: "run_events hw [] = hw"
  by (simp add: run_events_def)















section \<open>The colour policy is total\<close>

text \<open>
  C3. The colour policy returns green for VFR, blue for MVFR, red for IFR, purple for LIFR
  and yellow for Unknown; a string outside the five recognised names parses to Unknown,
  never to an error, and its colour is yellow.
\<close>

theorem color_policy_total:
  "get_color_from_flight_category VFR = GREEN
   \<and> get_color_from_flight_category MVFR = BLUE
   \<and> get_color_from_flight_category IFR = RED
   \<and> get_color_from_flight_category LIFR = PURPLE
   \<and> get_color_from_flight_category UNKNOWN = YELLOW
   \<and> (name \<notin> {''UNKNOWN'', ''VFR'', ''MVFR'', ''IFR'', ''LIFR''}
        \<longrightarrow> from_string name = UNKNOWN
            \<and> get_color_from_flight_category (from_string name) = YELLOW)"
  by (simp add: get_color_from_flight_category_def color_map_def from_string_def str_map_def
      VFR_def MVFR_def IFR_def LIFR_def UNKNOWN_def)

theorem color_policy_total_witness:
  "''SNOW'' \<notin> {''UNKNOWN'', ''VFR'', ''MVFR'', ''IFR'', ''LIFR''}
   \<and> from_string ''SNOW'' = UNKNOWN
   \<and> get_color_from_flight_category (from_string ''SNOW'') = YELLOW"
  using color_policy_total [of "''SNOW''"] by simp

section \<open>The channel levels that \<open>set_color\<close> writes\<close>



section \<open>The alternate airport is asked exactly when the primary attempt failed\<close>

text \<open>
  C1. \<open>update_flight_category\<close> requests the primary code first and then the alternate
  code if and only if the primary attempt failed, that is, the primary request raised, or
  its body has no marker, or the marked text parses to Unknown. When the primary attempt
  yields one of VFR, MVFR, IFR and LIFR, the primary request is the only one.
\<close>

theorem alternate_iff_primary_failed:
  "filter is_get (snd (snd (update_flight_category rt s a))) =
     (if primary_failed s a
      then [HttpGet (metar_url (airport_code a)), HttpGet (metar_url (alternate a))]
      else [HttpGet (metar_url (airport_code a))])
   \<and> (\<not> primary_failed s a) =
       (\<exists>text g. responses s (issued s) (metar_url (airport_code a)) = Body text
          \<and> re_search text = Some g \<and> g \<in> {''VFR'', ''MVFR'', ''IFR'', ''LIFR''})"
proof
  show "filter is_get (snd (snd (update_flight_category rt s a))) =
     (if primary_failed s a
      then [HttpGet (metar_url (airport_code a)), HttpGet (metar_url (alternate a))]
      else [HttpGet (metar_url (airport_code a))])"
    by (simp add: update_unfold Let_def resolve_gets)
  show "(\<not> primary_failed s a) =
       (\<exists>text g. responses s (issued s) (metar_url (airport_code a)) = Body text
          \<and> re_search text = Some g \<and> g \<in> {''VFR'', ''MVFR'', ''IFR'', ''LIFR''})"
  proof (cases "responses s (issued s) (metar_url (airport_code a))")
    case (Body t)
    then show ?thesis
      by (cases "re_search t") (simp_all add: primary_failed_def from_string_recognised)
  qed (simp_all add: primary_failed_def)
qed

theorem alternate_iff_primary_failed_witness:
  "primary_failed
     (answers [(metar_url ''KXYZ'', Body ''<METAR/>''),
               (metar_url ''KABC'', Body ''<flight_category>VFR</flight_category>'')])
     example_airport
   \<and> filter is_get (snd (snd (update_flight_category example_runtime
         (answers [(metar_url ''KXYZ'', Body ''<METAR/>''),
                   (metar_url ''KABC'', Body ''<flight_category>VFR</flight_category>'')])
         example_airport)))
       = [HttpGet (metar_url ''KXYZ''), HttpGet (metar_url ''KABC'')]
   \<and> \<not> primary_failed
         (answers [(metar_url ''KXYZ'', Body ''<flight_category>IFR</flight_category>'')])
         example_airport
   \<and> filter is_get (snd (snd (update_flight_category example_runtime
         (answers [(metar_url ''KXYZ'', Body ''<flight_category>IFR</flight_category>'')])
         example_airport)))
       = [HttpGet (metar_url ''KXYZ'')]"
proof -
  let ?s1 = "answers [(metar_url ''KXYZ'', Body ''<METAR/>''),
                      (metar_url ''KABC'', Body ''<flight_category>VFR</flight_category>'')]"
  let ?s2 = "answers [(metar_url ''KXYZ'', Body ''<flight_category>IFR</flight_category>'')]"
  have f: "primary_failed ?s1 example_airport"
    by (simp add: primary_failed_def example_defs)
  have g: "\<not> primary_failed ?s2 example_airport"
    by (simp add: primary_failed_def example_defs)
  from f g alternate_iff_primary_failed [of example_runtime ?s1 example_airport]
    alternate_iff_primary_failed [of example_runtime ?s2 example_airport]
  show ?thesis by (simp add: example_airport_def)
qed

section \<open>An unchanged category is written once\<close>

text \<open>
  C2. Two calls of \<open>update_flight_category\<close> in a row that resolve to the same category:
  the second call writes no LED channel; the first call writes the colour of that category
  once (its three channel levels) when the category differs from the stored one, and writes
  no LED channel when the category equals the stored one.
\<close>

theorem update_twice_one_write:
  assumes first: "update_flight_category rt s a = (a1, s1, ev1)"
    and second: "update_flight_category rt s1 a1 = (a2, s2, ev2)"
    and same: "fst (resolve_flight_category s1 a1) = fst (resolve_flight_category s a)"
  shows "filter is_write ev2 = []
     \<and> (fst (resolve_flight_category s a) \<noteq> flight_category a \<longrightarrow>
          filter is_write ev1 =
            set_color rt (led a)
              (get_color_from_flight_category (fst (resolve_flight_category s a)))
              (LED_BRIGHTNESS rt)
          \<and> length (filter is_write ev1) = 3)
     \<and> (fst (resolve_flight_category s a) = flight_category a \<longrightarrow> filter is_write ev1 = [])"
proof -
  have stored: "flight_category a1 = fst (resolve_flight_category s a)"
    using update_category [of rt s a] first by simp
  have "filter is_write ev2 = filter is_write (snd (snd (update_flight_category rt s1 a1)))"
    using second by simp
  also have "\<dots> = []"
    using same stored by (simp add: update_writes)
  finally have no_second: "filter is_write ev2 = []" .
  have "filter is_write ev1 = filter is_write (snd (snd (update_flight_category rt s a)))"
    using first by simp
  then have w1: "filter is_write ev1 =
     (if fst (resolve_flight_category s a) \<noteq> flight_category a
      then set_color rt (led a)
             (get_color_from_flight_category (fst (resolve_flight_category s a)))
             (LED_BRIGHTNESS rt)
      else [])"
    by (simp only: update_writes)
  have three: "length (set_color rt l c b) = 3" for l c b
    by (simp add: set_color_def Let_def)
  from no_second w1 three show ?thesis by simp
qed

theorem update_twice_one_write_witness:
  "fst (resolve_flight_category
          (answers [(metar_url ''KXYZ'', Body ''<flight_category>IFR</flight_category>'')]\<lparr>issued := 1\<rparr>)
          (example_airport\<lparr>flight_category := IFR\<rparr>))
     = fst (resolve_flight_category
          (answers [(metar_url ''KXYZ'', Body ''<flight_category>IFR</flight_category>'')])
          example_airport)
   \<and> filter is_write (snd (snd (update_flight_category example_runtime
        (answers [(metar_url ''KXYZ'', Body ''<flight_category>IFR</flight_category>'')]\<lparr>issued := 1\<rparr>)
        (example_airport\<lparr>flight_category := IFR\<rparr>)))) = []
   \<and> filter is_write (snd (snd (update_flight_category example_runtime
        (answers [(metar_url ''KXYZ'', Body ''<flight_category>IFR</flight_category>'')])
        example_airport)))
       = [SetConstantCurrent (host example_led) 0 127,
          SetConstantCurrent (host example_led) 1 0,
          SetConstantCurrent (host example_led) 2 0]"
proof -
  let ?s = "answers [(metar_url ''KXYZ'', Body ''<flight_category>IFR</flight_category>'')]"
  let ?a = example_airport
  have r0: "resolve_flight_category ?s ?a
              = (IFR, ?s\<lparr>issued := 1\<rparr>, [HttpGet (metar_url ''KXYZ''), RespClose (metar_url ''KXYZ'')])"
    by (simp add: resolve_flight_category_def request_category_def session_get_def example_defs)
  have r1: "fst (resolve_flight_category (?s\<lparr>issued := 1\<rparr>) (?a\<lparr>flight_category := IFR\<rparr>)) = IFR"
    by (simp add: resolve_flight_category_def request_category_def session_get_def example_defs)
  have u0: "update_flight_category example_runtime ?s ?a
              = (?a\<lparr>flight_category := IFR\<rparr>, ?s\<lparr>issued := 1\<rparr>,
                 snd (snd (update_flight_category example_runtime ?s ?a)))"
    by (simp add: update_unfold Let_def r0)
  have u1: "update_flight_category example_runtime (?s\<lparr>issued := 1\<rparr>) (?a\<lparr>flight_category := IFR\<rparr>)
              = (fst (update_flight_category example_runtime (?s\<lparr>issued := 1\<rparr>) (?a\<lparr>flight_category := IFR\<rparr>)),
                 fst (snd (update_flight_category example_runtime (?s\<lparr>issued := 1\<rparr>) (?a\<lparr>flight_category := IFR\<rparr>))),
                 snd (snd (update_flight_category example_runtime (?s\<lparr>issued := 1\<rparr>) (?a\<lparr>flight_category := IFR\<rparr>))))"
    by simp
  have same: "fst (resolve_flight_category (?s\<lparr>issued := 1\<rparr>) (?a\<lparr>flight_category := IFR\<rparr>))
                = fst (resolve_flight_category ?s ?a)"
    by (simp only: r0 r1 fst_conv)
  have red: "set_color example_runtime (led ?a) (get_color_from_flight_category IFR)
               (LED_BRIGHTNESS example_runtime)
             = [SetConstantCurrent (host example_led) 0 127,
                SetConstantCurrent (host example_led) 1 0,
                SetConstantCurrent (host example_led) 2 0]"
    by (simp add: set_color_def get_color_from_flight_category_def color_map_def RED_def
        float_mul_def py_int_of_float_def example_defs)
  have differs: "fst (resolve_flight_category ?s ?a) \<noteq> flight_category ?a"
    by (simp add: r0) (simp add: example_defs)
  from update_twice_one_write [OF u0 u1 same] same differs red
  show ?thesis by (simp add: r0)
qed

section \<open>An unrecognised category from the alternate airport\<close>

text \<open>
  C10. When the primary attempt failed and the alternate request returns a body whose
  marked text is none of the five recognised names, the category resolves to Unknown, no
  error line is printed, the two requests are the only ones, and the LED is written (yellow)
  only if the stored category was not Unknown already.
\<close>

theorem alternate_unrecognised_is_unknown:
  assumes "primary_failed s a"
    and "responses s (Suc (issued s)) (metar_url (alternate a)) = Body body"
    and "re_search body = Some g"
    and "g \<notin> {''UNKNOWN'', ''VFR'', ''MVFR'', ''IFR'', ''LIFR''}"
  shows "fst (resolve_flight_category s a) = UNKNOWN
     \<and> filter is_error_print (snd (snd (resolve_flight_category s a))) = []
     \<and> filter is_get (snd (snd (resolve_flight_category s a)))
         = [HttpGet (metar_url (airport_code a)), HttpGet (metar_url (alternate a))]
     \<and> update_flight_category rt s a =
         (if flight_category a \<noteq> UNKNOWN
          then (a\<lparr>flight_category := UNKNOWN\<rparr>, fst (snd (resolve_flight_category s a)),
                snd (snd (resolve_flight_category s a))
                @ set_color rt (led a) YELLOW (LED_BRIGHTNESS rt))
          else (a, fst (snd (resolve_flight_category s a)), snd (snd (resolve_flight_category s a))))"
proof -
  have parse: "from_string g = UNKNOWN"
    using assms(4) by (simp add: from_string_def str_map_def)
  have not_error: "take 6 (trying_alternate_line a) \<noteq> ''[Error''"
    by (simp add: trying_alternate_line_def)
  have unknown: "fst (resolve_flight_category s a) = UNKNOWN"
    using assms(1-3) parse
    by (auto simp add: resolve_flight_category_def request_category_def session_get_def
        primary_failed_def Let_def split: http_result.splits option.splits sum.splits)
  have quiet: "filter is_error_print (snd (snd (resolve_flight_category s a))) = []"
    using assms(1-3) parse not_error
    by (auto simp add: resolve_flight_category_def request_category_def session_get_def
        primary_failed_def Let_def split: http_result.splits option.splits sum.splits)
  have yellow: "get_color_from_flight_category UNKNOWN = YELLOW"
    by (simp add: get_color_from_flight_category_def color_map_def UNKNOWN_def)
  have "update_flight_category rt s a =
         (if flight_category a \<noteq> UNKNOWN
          then (a\<lparr>flight_category := UNKNOWN\<rparr>, fst (snd (resolve_flight_category s a)),
                snd (snd (resolve_flight_category s a))
                @ set_color rt (led a) YELLOW (LED_BRIGHTNESS rt))
          else (a, fst (snd (resolve_flight_category s a)), snd (snd (resolve_flight_category s a))))"
    by (simp add: update_unfold Let_def unknown yellow)
  with unknown quiet assms(1) show ?thesis
    by (simp add: resolve_gets)
qed

theorem alternate_unrecognised_is_unknown_witness:
  "primary_failed
     (answers [(metar_url ''KXYZ'', Body ''<METAR/>''),
               (metar_url ''KABC'', Body ''<flight_category>SNOW</flight_category>'')])
     example_airport
   \<and> re_search ''<flight_category>SNOW</flight_category>'' = Some ''SNOW''
   \<and> ''SNOW'' \<notin> {''UNKNOWN'', ''VFR'', ''MVFR'', ''IFR'', ''LIFR''}
   \<and> fst (resolve_flight_category
         (answers [(metar_url ''KXYZ'', Body ''<METAR/>''),
                   (metar_url ''KABC'', Body ''<flight_category>SNOW</flight_category>'')])
         example_airport) = UNKNOWN
   \<and> filter is_error_print (snd (snd (resolve_flight_category
         (answers [(metar_url ''KXYZ'', Body ''<METAR/>''),
                   (metar_url ''KABC'', Body ''<flight_category>SNOW</flight_category>'')])
         example_airport))) = []
   \<and> snd (snd (update_flight_category example_runtime
         (answers [(metar_url ''KXYZ'', Body ''<METAR/>''),
                   (metar_url ''KABC'', Body ''<flight_category>SNOW</flight_category>'')])
         example_airport))
       = snd (snd (resolve_flight_category
         (answers [(metar_url ''KXYZ'', Body ''<METAR/>''),
                   (metar_url ''KABC'', Body ''<flight_category>SNOW</flight_category>'')])
         example_airport))"
proof -
  let ?s = "answers [(metar_url ''KXYZ'', Body ''<METAR/>''),
                     (metar_url ''KABC'', Body ''<flight_category>SNOW</flight_category>'')]"
  have failed: "primary_failed ?s example_airport"
    by (simp add: primary_failed_def example_defs)
  have alt: "responses ?s (Suc (issued ?s)) (metar_url (alternate example_airport))
               = Body ''<flight_category>SNOW</flight_category>''"
    by (simp add: example_defs)
  have found: "re_search ''<flight_category>SNOW</flight_category>'' = Some ''SNOW''"
    by (simp add: open_tag_def close_tag_def)
  have other: "''SNOW'' \<notin> {''UNKNOWN'', ''VFR'', ''MVFR'', ''IFR'', ''LIFR''}"
    by simp
  have stored: "flight_category example_airport = UNKNOWN"
    by (simp add: example_airport_def)
  from alternate_unrecognised_is_unknown [OF failed alt found other, of example_runtime]
    failed found other stored
  show ?thesis by simp
qed

section \<open>At most five connection attempts\<close>

text \<open>
  C4. \<open>connect_wifi\<close> calls the radio at most five times. When all five attempts fail it
  returns False after exactly five attempts, each followed by a sleep of one second, and
  tries no more. When attempt \<open>k\<close> (between 1 and 5) is the first to succeed it returns
  True at once: the radio was called exactly \<open>k\<close> times.
\<close>

theorem connect_wifi_five_attempts:
  "length (filter is_connect (snd (connect_wifi rt radio as))) \<le> 5
   \<and> ((\<forall>j \<in> {1..5}. connection_fails radio j) \<longrightarrow>
        connect_wifi rt radio as = (Inr False, failed_attempts rt as [1..<6])
        \<and> length (filter is_connect (snd (connect_wifi rt radio as))) = 5)
   \<and> (1 \<le> k \<and> k \<le> 5 \<and> (\<forall>j \<in> {1..<k}. connection_fails radio j) \<and> radio k = None \<longrightarrow>
        connect_wifi rt radio as =
          (Inr True, failed_attempts rt as [1..<k] @ attempt_events rt as k
                     @ [Print ''Connected to WIFI''])
        \<and> length (filter is_connect (snd (connect_wifi rt radio as))) = k)"
proof (intro conjI impI)
  show "length (filter is_connect (snd (connect_wifi rt radio as))) \<le> 5"
    using attempts_bounded [of rt radio as "[1..<6]"] by (simp add: connect_wifi_def)
next
  assume all: "\<forall>j \<in> {1..5}. connection_fails radio j"
  then show "connect_wifi rt radio as = (Inr False, failed_attempts rt as [1..<6])"
    by (rule connect_wifi_exhausted)
  then show "length (filter is_connect (snd (connect_wifi rt radio as))) = 5"
    by (simp add: connects_failed_attempts)
next
  assume "1 \<le> k \<and> k \<le> 5 \<and> (\<forall>j \<in> {1..<k}. connection_fails radio j) \<and> radio k = None"
  then have k: "1 \<le> k" "k \<le> 5" "\<forall>j \<in> {1..<k}. connection_fails radio j" "radio k = None"
    by simp_all
  then show "connect_wifi rt radio as =
          (Inr True, failed_attempts rt as [1..<k] @ attempt_events rt as k
                     @ [Print ''Connected to WIFI''])"
    by (rule connect_wifi_succeeds)
  then show "length (filter is_connect (snd (connect_wifi rt radio as))) = k"
    using k(1) by (simp add: connects_failed_attempts)
qed

theorem connect_wifi_five_attempts_witness:
  "connect_wifi example_runtime (\<lambda>k. Some ConnectionError) [example_airport]
     = (Inr False, failed_attempts example_runtime [example_airport] [1..<6])
   \<and> length (filter is_connect
        (snd (connect_wifi example_runtime (\<lambda>k. Some ConnectionError) [example_airport]))) = 5
   \<and> connect_wifi example_runtime (\<lambda>k. if k < 3 then Some ConnectionError else None)
        [example_airport]
     = (Inr True, failed_attempts example_runtime [example_airport] [1..<3]
                  @ attempt_events example_runtime [example_airport] 3
                  @ [Print ''Connected to WIFI''])
   \<and> length (filter is_connect
        (snd (connect_wifi example_runtime (\<lambda>k. if k < 3 then Some ConnectionError else None)
           [example_airport]))) = 3"
proof -
  have never: "\<forall>j \<in> {1..5}. connection_fails (\<lambda>k. Some ConnectionError) j"
    by (simp add: connection_fails_def is_ConnectionError_def ConnectionError_def)
  have third: "(1::nat) \<le> 3 \<and> (3::nat) \<le> 5
      \<and> (\<forall>j \<in> {1..<3}. connection_fails (\<lambda>k. if k < 3 then Some ConnectionError else None) j)
      \<and> (\<lambda>k. if k < 3 then Some ConnectionError else None) (3::nat) = None"
    by (simp add: connection_fails_def is_ConnectionError_def ConnectionError_def)
  from connect_wifi_five_attempts
         [of example_runtime "\<lambda>k. Some ConnectionError" "[example_airport]" 1]
       connect_wifi_five_attempts
         [of example_runtime "\<lambda>k. if k < 3 then Some ConnectionError else None"
             "[example_airport]" 3]
       never third
  show ?thesis by blast
qed

section \<open>Exit code 1 or the polling loop\<close>

text \<open>
  C5. With the airports loaded: when all five connection attempts fail, \<open>connect_wifi\<close>
  returns False, every LED is set to red and the process exits with status 1; when an
  attempt succeeds, the process does not exit: after any number \<open>n\<close> of polling rounds it
  is still polling, has shown green, slept, shown yellow, and has slept 45 seconds \<open>n\<close>
  times.
\<close>

theorem startup_exit_or_poll:
  assumes loaded: "load_airports rt lines main_boards [] = (Inr as, ev0)"
  shows "((\<forall>j \<in> {1..5}. connection_fails radio j) \<longrightarrow>
            fst (connect_wifi rt radio as) = Inr False
            \<and> main rt (Inr lines) radio s n =
                (Exited 1,
                 ev0 @ snd (connect_wifi rt radio as)
                 @ concat (map (\<lambda>a. set_color rt (led a) RED (LED_BRIGHTNESS rt)) as)))
     \<and> (1 \<le> k \<and> k \<le> 5 \<and> (\<forall>j \<in> {1..<k}. connection_fails radio j) \<and> radio k = None \<longrightarrow>
            fst (connect_wifi rt radio as) = Inr True
            \<and> main rt (Inr lines) radio s n =
                (Polling (fst (poll n rt s as)) (fst (snd (poll n rt s as))),
                 ev0 @ snd (connect_wifi rt radio as)
                 @ show_color rt as GREEN (LED_BRIGHTNESS rt) @ [Sleep 1]
                 @ show_color rt as YELLOW (LED_BRIGHTNESS rt)
                 @ snd (snd (poll n rt s as)))
            \<and> filter is_sleep (snd (snd (poll n rt s as))) = replicate n (Sleep 45))"
proof (intro conjI impI)
  assume "\<forall>j \<in> {1..5}. connection_fails radio j"
  then have failed: "connect_wifi rt radio as = (Inr False, failed_attempts rt as [1..<6])"
    by (rule connect_wifi_exhausted)
  then show "fst (connect_wifi rt radio as) = Inr False"
    by simp
  then show "main rt (Inr lines) radio s n =
                (Exited 1,
                 ev0 @ snd (connect_wifi rt radio as)
                 @ concat (map (\<lambda>a. set_color rt (led a) RED (LED_BRIGHTNESS rt)) as))"
    by (simp add: main_unfold [OF loaded] show_color_def)
next
  assume "1 \<le> k \<and> k \<le> 5 \<and> (\<forall>j \<in> {1..<k}. connection_fails radio j) \<and> radio k = None"
  then have k: "1 \<le> k" "k \<le> 5" "\<forall>j \<in> {1..<k}. connection_fails radio j" "radio k = None"
    by simp_all
  then have "connect_wifi rt radio as =
          (Inr True, failed_attempts rt as [1..<k] @ attempt_events rt as k
                     @ [Print ''Connected to WIFI''])"
    by (rule connect_wifi_succeeds)
  then show connected: "fst (connect_wifi rt radio as) = Inr True"
    by simp
  then show "main rt (Inr lines) radio s n =
                (Polling (fst (poll n rt s as)) (fst (snd (poll n rt s as))),
                 ev0 @ snd (connect_wifi rt radio as)
                 @ show_color rt as GREEN (LED_BRIGHTNESS rt) @ [Sleep 1]
                 @ show_color rt as YELLOW (LED_BRIGHTNESS rt)
                 @ snd (snd (poll n rt s as)))"
    by (simp add: main_unfold [OF loaded])
  show "filter is_sleep (snd (snd (poll n rt s as))) = replicate n (Sleep 45)"
    by (rule sleeps_poll)
qed

theorem startup_exit_or_poll_witness:
  "fst (main example_runtime (Inr [example_line]) (\<lambda>k. Some ConnectionError) (answers []) 2)
     = Exited 1
   \<and> fst (main example_runtime (Inr [example_line])
          (\<lambda>k. if k < 3 then Some ConnectionError else None) (answers []) 2)
     = Polling (fst (poll 2 example_runtime (answers []) [example_airport]))
         (fst (snd (poll 2 example_runtime (answers []) [example_airport])))"
proof -
  have never: "\<forall>j \<in> {1..5}. connection_fails (\<lambda>k. Some ConnectionError) j"
    by (simp add: connection_fails_def is_ConnectionError_def ConnectionError_def)
  have third: "(1::nat) \<le> 3 \<and> (3::nat) \<le> 5
      \<and> (\<forall>j \<in> {1..<3}. connection_fails (\<lambda>k. if k < 3 then Some ConnectionError else None) j)
      \<and> (\<lambda>k. if k < 3 then Some ConnectionError else None) (3::nat) = None"
    by (simp add: connection_fails_def is_ConnectionError_def ConnectionError_def)
  from startup_exit_or_poll [OF example_line_loads,
         where radio = "\<lambda>k. Some ConnectionError" and k = 1 and s = "answers []" and n = 2]
       startup_exit_or_poll [OF example_line_loads,
         where radio = "\<lambda>k. if k < 3 then Some ConnectionError else None" and k = 3
           and s = "answers []" and n = 2]
       never third
  show ?thesis by simp
qed

section \<open>A board that is not found is fatal\<close>

text \<open>
  C8. \<open>get_board\<close> returns a registered board with the given controller and address,
  or \<open>None\<close> when no registered board matches (or raises IndexError for a controller
  index out of range). A configuration line whose board is not returned constructs no
  airport: \<open>from_config_line\<close> raises before any LED is touched, and the process dies of
  the uncaught exception before it tries to connect.
\<close>

theorem board_not_found_is_fatal:
  "(get_board bm ci ad = Inr (Some b) \<longrightarrow>
      b \<in> set (boards bm) \<and> py_index (controllers bm) ci = Inr (controller b) \<and> addr b = ad)
   \<and> (get_board bm ci ad = Inr None \<longrightarrow>
      (\<forall>b' \<in> set (boards bm). \<not> (py_index (controllers bm) ci = Inr (controller b') \<and> addr b' = ad)))
   \<and> (get_board bm ci ad = Inl e \<longrightarrow>
      e = IndexError \<and> py_index (controllers bm) ci = Inl IndexError)
   \<and> (py_index (py_split line) 1 = Inr f1 \<and> py_int rt f1 10 = Inr ci
        \<and> py_index (py_split line) 2 = Inr f2 \<and> py_int rt f2 16 = Inr ad
        \<and> (\<forall>b'. get_board main_boards ci ad \<noteq> Inr (Some b')) \<and> line \<in> set lines \<longrightarrow>
      (\<exists>e'. from_config_line rt line main_boards = (Inl e', []))
      \<and> (\<exists>e' ev. main rt (Inr lines) radio s n = (Uncaught e', ev) \<and> filter is_connect ev = []))"
proof -
  have found: "get_board bm ci ad = Inr (Some b) \<longrightarrow>
      b \<in> set (boards bm) \<and> py_index (controllers bm) ci = Inr (controller b) \<and> addr b = ad"
    unfolding get_board_def using get_board_loop_found by blast
  have none: "get_board bm ci ad = Inr None \<longrightarrow>
      (\<forall>b' \<in> set (boards bm). \<not> (py_index (controllers bm) ci = Inr (controller b') \<and> addr b' = ad))"
    unfolding get_board_def using get_board_loop_none by blast
  have raised: "get_board bm ci ad = Inl e \<longrightarrow>
      e = IndexError \<and> py_index (controllers bm) ci = Inl IndexError"
    unfolding get_board_def using get_board_loop_raises by blast
  have fatal: "(\<exists>e'. from_config_line rt line main_boards = (Inl e', []))
      \<and> (\<exists>e' ev. main rt (Inr lines) radio s n = (Uncaught e', ev) \<and> filter is_connect ev = [])"
    if h: "py_index (py_split line) 1 = Inr f1 \<and> py_int rt f1 10 = Inr ci
        \<and> py_index (py_split line) 2 = Inr f2 \<and> py_int rt f2 16 = Inr ad
        \<and> (\<forall>b'. get_board main_boards ci ad \<noteq> Inr (Some b')) \<and> line \<in> set lines"
  proof -
    from h obtain e' where line_raises: "from_config_line rt line main_boards = (Inl e', [])"
      using no_board_raises [of line f1 rt ci f2 ad main_boards] by blast
    from h have "line \<in> set lines" by simp
    from load_airports_raises [OF this line_raises, of "[]"]
    obtain e0 ev0 where load: "load_airports rt lines main_boards [] = (Inl e0, ev0)"
      by blast
    then have "main rt (Inr lines) radio s n = (Uncaught e0, ev0)"
      by (rule main_load_raises)
    moreover have "filter is_connect ev0 = []"
      using connects_load_airports [of rt lines main_boards "[]"] load by simp
    ultimately show ?thesis
      using line_raises by blast
  qed
  from found none raised fatal show ?thesis
    by blast
qed

theorem board_not_found_is_fatal_witness:
  "get_board main_boards 0 0x58 = Inr (Some \<lparr>controller = \<lparr>scl = ''GP1'', sda = ''GP0''\<rparr>, addr = 0x58\<rparr>)
   \<and> get_board main_boards 0 0x60 = Inr None
   \<and> (\<exists>e'. from_config_line example_runtime unknown_board_line main_boards = (Inl e', []))
   \<and> (\<exists>e' ev. main example_runtime (Inr [example_line, unknown_board_line]) (\<lambda>k. None) (answers []) 1
                 = (Uncaught e', ev) \<and> filter is_connect ev = [])"
proof -
  have found: "get_board main_boards 0 0x58
      = Inr (Some \<lparr>controller = \<lparr>scl = ''GP1'', sda = ''GP0''\<rparr>, addr = 0x58\<rparr>)"
    by (simp add: config_defs)
  have none: "get_board main_boards 0 0x60 = Inr None"
    by (simp add: config_defs)
  have fields: "py_index (py_split unknown_board_line) 1 = Inr ''0''
      \<and> py_int example_runtime ''0'' 10 = Inr 0
      \<and> py_index (py_split unknown_board_line) 2 = Inr ''60''
      \<and> py_int example_runtime ''60'' 16 = Inr 0x60"
    by (simp add: unknown_board_line_def config_defs example_runtime_def)
  have listed: "unknown_board_line \<in> set [example_line, unknown_board_line]"
    by simp
  from board_not_found_is_fatal [where bm = main_boards and ci = 0 and ad = "0x60"
      and line = unknown_board_line and ?f1.0 = "''0''" and ?f2.0 = "''60''" and rt = example_runtime
      and lines = "[example_line, unknown_board_line]" and radio = "\<lambda>k. None"
      and s = "answers []" and n = 1] found none fields listed
  show ?thesis by simp
qed

section \<open>Blank and short configuration lines\<close>




section \<open>The stored category and the colour on the LED\<close>




end
